theory Spec2Isabelle
  imports Main
begin

section \<open>Python strings\<close>

text \<open>
  A Python \<open>str\<close> is a sequence of Unicode code points, so a string is a list of code
  points (natural numbers) and \<open>py ''abc''\<close> is the string of an ASCII literal. Isabelle's
  own \<open>char\<close> is a byte; it could hold neither the emoji of the welcome message in
  \<open>main.py\<close> nor the characters on which \<open>str.isdigit\<close> and the ASCII digits differ.
\<close>

type_synonym pystr = "nat list"

abbreviation py :: "string \<Rightarrow> pystr" where
  "py s \<equiv> map of_char s"

text \<open>
  \<open>c.isspace()\<close>: the code points CPython classifies as whitespace (general category
  \<open>Zs\<close> or bidirectional class \<open>WS\<close>, \<open>B\<close>, \<open>S\<close>). \<open>str.strip()\<close> without an argument
  removes exactly these from both ends.
\<close>

definition isspace :: "nat \<Rightarrow> bool" where
  "isspace c \<longleftrightarrow>
     (0x09 \<le> c \<and> c \<le> 0x0D) \<or> (0x1C \<le> c \<and> c \<le> 0x20) \<or> c = 0x85 \<or> c = 0xA0 \<or>
     c = 0x1680 \<or> (0x2000 \<le> c \<and> c \<le> 0x200A) \<or> c = 0x2028 \<or> c = 0x2029 \<or>
     c = 0x202F \<or> c = 0x205F \<or> c = 0x3000"

text \<open>
  \<open>c.isdigit()\<close>: the code points whose Unicode \<open>Numeric_Type\<close> is \<open>Decimal\<close> or
  \<open>Digit\<close>, as inclusive ranges (the table of Unicode 14.0.0, which CPython 3.11 ships;
  later versions only add ranges above \<open>U+0FFF\<close>). Besides \<open>0\<close>-\<open>9\<close> it holds the
  decimal digits of other scripts and digits that are not decimal, the first of which are
  the superscripts \<open>U+00B2\<close>, \<open>U+00B3\<close> and \<open>U+00B9\<close>.
\<close>

definition digit_ranges :: "(nat \<times> nat) list" where
  "digit_ranges =
    [(0x30, 0x39), (0xB2, 0xB3), (0xB9, 0xB9), (0x660, 0x669), (0x6F0, 0x6F9), (0x7C0, 0x7C9),
     (0x966, 0x96F), (0x9E6, 0x9EF), (0xA66, 0xA6F), (0xAE6, 0xAEF), (0xB66, 0xB6F),
     (0xBE6, 0xBEF), (0xC66, 0xC6F), (0xCE6, 0xCEF), (0xD66, 0xD6F), (0xDE6, 0xDEF),
     (0xE50, 0xE59), (0xED0, 0xED9), (0xF20, 0xF29), (0x1040, 0x1049), (0x1090, 0x1099),
     (0x1369, 0x1371), (0x17E0, 0x17E9), (0x1810, 0x1819), (0x1946, 0x194F), (0x19D0, 0x19DA),
     (0x1A80, 0x1A89), (0x1A90, 0x1A99), (0x1B50, 0x1B59), (0x1BB0, 0x1BB9), (0x1C40, 0x1C49),
     (0x1C50, 0x1C59), (0x2070, 0x2070), (0x2074, 0x2079), (0x2080, 0x2089), (0x2460, 0x2468),
     (0x2474, 0x247C), (0x2488, 0x2490), (0x24EA, 0x24EA), (0x24F5, 0x24FD), (0x24FF, 0x24FF),
     (0x2776, 0x277E), (0x2780, 0x2788), (0x278A, 0x2792), (0xA620, 0xA629), (0xA8D0, 0xA8D9),
     (0xA900, 0xA909), (0xA9D0, 0xA9D9), (0xA9F0, 0xA9F9), (0xAA50, 0xAA59), (0xABF0, 0xABF9),
     (0xFF10, 0xFF19), (0x104A0, 0x104A9), (0x10A40, 0x10A43), (0x10D30, 0x10D39),
     (0x10E60, 0x10E68), (0x11052, 0x1105A), (0x11066, 0x1106F), (0x110F0, 0x110F9),
     (0x11136, 0x1113F), (0x111D0, 0x111D9), (0x112F0, 0x112F9), (0x11450, 0x11459),
     (0x114D0, 0x114D9), (0x11650, 0x11659), (0x116C0, 0x116C9), (0x11730, 0x11739),
     (0x118E0, 0x118E9), (0x11950, 0x11959), (0x11C50, 0x11C59), (0x11D50, 0x11D59),
     (0x11DA0, 0x11DA9), (0x16A60, 0x16A69), (0x16AC0, 0x16AC9), (0x16B50, 0x16B59),
     (0x1D7CE, 0x1D7FF), (0x1E140, 0x1E149), (0x1E2F0, 0x1E2F9), (0x1E950, 0x1E959),
     (0x1F100, 0x1F10A), (0x1FBF0, 0x1FBF9)]"

definition isdigit :: "nat \<Rightarrow> bool" where
  "isdigit c \<longleftrightarrow> list_ex (\<lambda>(lo, hi). lo \<le> c \<and> c \<le> hi) digit_ranges"

text \<open>\<open>s.strip()\<close>: drop the whitespace at the front, then the whitespace at the back.\<close>

definition strip :: "pystr \<Rightarrow> pystr" where
  "strip s = rev (dropWhile isspace (rev (dropWhile isspace s)))"

text \<open>\<open>s.startswith(p)\<close>.\<close>

definition startswith :: "pystr \<Rightarrow> pystr \<Rightarrow> bool" where
  "startswith s p \<longleftrightarrow> take (length p) s = p"

section \<open>The phone normalizer (\<open>WhatsAppService._normalize_phone\<close>)\<close>

text \<open>
  The source rebinds \<open>phone_number\<close> at every step; the model names the stages. The slice
  \<open>phone_number[1:]\<close> is \<open>drop 1\<close>.
\<close>

definition normalize_phone :: "pystr \<Rightarrow> pystr" where
  "normalize_phone phone_number =
     (let stripped = strip phone_number;
          kept = filter (\<lambda>c. isdigit c \<or> c = of_char CHR ''+'') stripped
      in if startswith kept (py ''0'') then py ''+254'' @ drop 1 kept
         else if startswith kept (py ''254'') then py ''+'' @ kept
         else if \<not> startswith kept (py ''+'') then py ''+'' @ kept
         else kept)"

section \<open>Python values, dictionaries and exceptions\<close>

text \<open>
  The values that travel through the payloads and the envelopes (\<open>Dict[str, Any]\<close>):
  \<open>None\<close>, booleans, integers, strings, lists, and dictionaries with string keys. A
  dictionary is an association list read with \<open>map_of\<close>. Floating-point numbers are left
  out: no operation of the program reads a number.
\<close>

datatype pyval =
    PNone
  | PBool bool
  | PInt int
  | PStr pystr
  | PList "pyval list"
  | PDict "(pystr \<times> pyval) list"

type_synonym pydict = "(pystr \<times> pyval) list"

text \<open>
  The exceptions (instances of \<open>BaseException\<close>). Instances of \<open>Exception\<close> are FastAPI's
  \<open>HTTPException(status_code, detail)\<close>, the built-in errors that attribute access and
  subscripting raise, and \<open>Error\<close> for any other one, such as a timeout raised by the
  transport, given by its text. Not instances of \<open>Exception\<close> are
  \<open>asyncio.CancelledError\<close>, which is raised at an \<open>await\<close> when the task of the request is
  cancelled (a direct subclass of \<open>BaseException\<close> since Python 3.8), and \<open>BaseError\<close> for
  any other one, such as \<open>KeyboardInterrupt\<close> or \<open>SystemExit\<close>, given by its text.
\<close>

datatype exn =
    HTTPException nat pyval
  | AttributeError
  | IndexError
  | KeyError pyval
  | TypeError
  | Error pystr
  | CancelledError
  | BaseError pystr

text \<open>\<open>isinstance(e, Exception)\<close>: what an \<open>except Exception\<close> clause catches.\<close>

fun is_Exception :: "exn \<Rightarrow> bool" where
  "is_Exception CancelledError = False"
| "is_Exception (BaseError m) = False"
| "is_Exception e = True"

text \<open>Truth value of a Python object, as \<open>if x\<close>, \<open>not x\<close> and \<open>x or y\<close> test it.\<close>

fun truthy :: "pyval \<Rightarrow> bool" where
  "truthy PNone = False"
| "truthy (PBool b) = b"
| "truthy (PInt i) = (i \<noteq> 0)"
| "truthy (PStr s) = (s \<noteq> [])"
| "truthy (PList xs) = (xs \<noteq> [])"
| "truthy (PDict d) = (d \<noteq> [])"

text \<open>\<open>x or y\<close>.\<close>

definition py_or :: "pyval \<Rightarrow> pyval \<Rightarrow> pyval" where
  "py_or x y = (if truthy x then x else y)"

text \<open>
  An \<open>Optional[str]\<close> (the result of \<open>os.getenv\<close>, an optional argument) as a value, and
  as an f-string interpolates it.
\<close>

fun pyopt :: "pystr option \<Rightarrow> pyval" where
  "pyopt None = PNone"
| "pyopt (Some s) = PStr s"

fun format_opt :: "pystr option \<Rightarrow> pystr" where
  "format_opt None = py ''None''"
| "format_opt (Some s) = s"

text \<open>\<open>d.get(k, default)\<close> on a dictionary.\<close>

definition dict_get :: "pydict \<Rightarrow> pystr \<Rightarrow> pyval \<Rightarrow> pyval" where
  "dict_get d k dflt = (case map_of d k of None \<Rightarrow> dflt | Some v \<Rightarrow> v)"

text \<open>
  \<open>v.get(k, default)\<close> on any value: only a dictionary has the method, every other value
  raises \<open>AttributeError\<close>.
\<close>

fun get :: "pyval \<Rightarrow> pystr \<Rightarrow> pyval \<Rightarrow> exn + pyval" where
  "get (PDict d) k dflt = Inr (dict_get d k dflt)"
| "get _ k dflt = Inl AttributeError"

text \<open>
  \<open>v[k]\<close> with a string key: \<open>KeyError\<close> on a dictionary without the key, \<open>TypeError\<close>
  on everything else (a list or a string wants an integer, the rest is not subscriptable).
\<close>

fun getitem_str :: "pyval \<Rightarrow> pystr \<Rightarrow> exn + pyval" where
  "getitem_str (PDict d) k =
     (case map_of d k of None \<Rightarrow> Inl (KeyError (PStr k)) | Some v \<Rightarrow> Inr v)"
| "getitem_str _ k = Inl TypeError"

text \<open>
  \<open>v[i]\<close> with an index \<open>i \<ge> 0\<close>: a list gives its element, a string the one-character
  string at that place, both raise \<open>IndexError\<close> out of range; a dictionary with string
  keys has no integer key; the rest is not subscriptable.
\<close>

fun getitem_int :: "pyval \<Rightarrow> nat \<Rightarrow> exn + pyval" where
  "getitem_int (PList xs) i = (if i < length xs then Inr (xs ! i) else Inl IndexError)"
| "getitem_int (PStr s) i = (if i < length s then Inr (PStr [s ! i]) else Inl IndexError)"
| "getitem_int (PDict d) i = Inl (KeyError (PInt (int i)))"
| "getitem_int _ i = Inl TypeError"

section \<open>The world: the transport, the configuration and the store\<close>

text \<open>
  The keyword arguments \<open>url\<close>, \<open>method\<close>, \<open>headers\<close>, \<open>json\<close> and \<open>timeout\<close> of one
  invocation of \<open>call_api\<close> (\<open>rq_timeout\<close> is \<open>None\<close> when the argument is not passed).
\<close>

record api_request =
  rq_url :: pystr
  rq_method :: pystr
  rq_headers :: "(pystr \<times> pystr) list"
  rq_json :: pyval
  rq_timeout :: "nat option"

text \<open>
  What the modules read from outside. The three \<open>NGUMZO_\<close> constants and
  \<open>GEMINI_API_KEY\<close> come from the process environment (\<open>NGUMZO_API_URL\<close> has a default,
  the others may be \<open>None\<close>). \<open>service/api_service.py\<close> is not among the sources, so
  \<open>call_api\<close> is a parameter: for each request it either raises (any exception, a
  cancellation included) or returns a dictionary. \<open>str\<close> is Python's \<open>str(e)\<close> on an
  exception, which the exception's class decides.
\<close>

record env =
  NGUMZO_API_KEY :: "pystr option"
  NGUMZO_API_URL :: pystr
  NGUMZO_SENDER_ID :: "pystr option"
  GEMINI_API_KEY :: "pystr option"
  call_api :: "api_request \<Rightarrow> exn + pydict"
  str :: "exn \<Rightarrow> pystr"

definition GEMINI_API_URL :: pystr where
  "GEMINI_API_URL =
     py ''https://generativelanguage.googleapis.com/v1beta/models/gemini-2.5-flash:generateContent''"

text \<open>
  The rows of \<open>models.py\<close>, each column under the initials of its table (\<open>wl_\<close>,
  \<open>wm_\<close>). The column \<open>sent_at\<close> defaults to the wall clock at insertion and is left out.
\<close>

record WaitingList =
  wl_id :: nat
  wl_username :: pystr
  wl_phone_number :: pystr

record WhatsAppMessage =
  wm_id :: nat
  wm_phone_number :: pystr
  wm_message_content :: pystr
  wm_message_type :: pystr
  wm_status :: pystr
  wm_external_message_id :: pyval
  wm_error_message :: "pystr option"

text \<open>
  The state a request handler can change: the invocations of \<open>call_api\<close> made so far, in
  order, and the two tables.
\<close>

record world =
  calls :: "api_request list"
  waiting_list :: "WaitingList list"
  whatsapp_messages :: "WhatsAppMessage list"

text \<open>
  A piece of code run in a world either raises or returns a value, and leaves a world.
  \<open>bnd\<close> is sequencing (an exception skips what follows), \<open>try_except\<close> is
  \<open>try: body except Exception as e: handler\<close> (an exception that is not an instance of
  \<open>Exception\<close> passes the clause), \<open>lift\<close> is an expression that may raise and changes
  nothing.
\<close>

type_synonym 'a io = "world \<Rightarrow> (exn + 'a) \<times> world"

definition ret :: "'a \<Rightarrow> 'a io" where
  "ret v w = (Inr v, w)"

definition raise :: "exn \<Rightarrow> 'a io" where
  "raise e w = (Inl e, w)"

definition lift :: "exn + 'a \<Rightarrow> 'a io" where
  "lift r w = (r, w)"

definition bnd :: "'a io \<Rightarrow> ('a \<Rightarrow> 'b io) \<Rightarrow> 'b io" where
  "bnd m f w = (case m w of (Inl e, w') \<Rightarrow> (Inl e, w') | (Inr v, w') \<Rightarrow> f v w')"

definition try_except :: "'a io \<Rightarrow> (exn \<Rightarrow> 'a io) \<Rightarrow> 'a io" where
  "try_except body handler w =
     (case body w of
        (Inl e, w') \<Rightarrow> (if is_Exception e then handler e w' else (Inl e, w'))
      | (Inr v, w') \<Rightarrow> (Inr v, w'))"

text \<open>\<open>await call_api(...)\<close>: the invocation is recorded, whatever comes back.\<close>

definition await_call_api :: "env \<Rightarrow> api_request \<Rightarrow> pydict io" where
  "await_call_api E rq w = (call_api E rq, w\<lparr>calls := calls w @ [rq]\<rparr>)"

text \<open>
  Modelled from the spec: the persistence collaborator (\<open>database.py\<close> is not among the
  sources). A table is the list of its rows in insertion order; \<open>add\<close>, \<open>commit\<close> and
  \<open>refresh\<close> append the row under a fresh primary key and succeed; \<open>query.filter.first\<close>
  is the first row with the phone number, if any.
\<close>

definition fresh_id :: "nat list \<Rightarrow> nat" where
  "fresh_id ids = Suc (fold max ids 0)"

definition query_waiting_list_first :: "pystr \<Rightarrow> WaitingList option io" where
  "query_waiting_list_first p w =
     (Inr (find (\<lambda>r. wl_phone_number r = p) (waiting_list w)), w)"

definition add_waiting_list :: "pystr \<Rightarrow> pystr \<Rightarrow> WaitingList io" where
  "add_waiting_list u p w =
     (let db_item = \<lparr>wl_id = fresh_id (map wl_id (waiting_list w)),
                      wl_username = u, wl_phone_number = p\<rparr>
      in (Inr db_item, w\<lparr>waiting_list := waiting_list w @ [db_item]\<rparr>))"

definition add_whatsapp_message ::
  "pystr \<Rightarrow> pystr \<Rightarrow> pystr \<Rightarrow> pystr \<Rightarrow> pyval \<Rightarrow> unit io" where
  "add_whatsapp_message p content ty st ext w =
     (let db_message =
            \<lparr>wm_id = fresh_id (map wm_id (whatsapp_messages w)),
             wm_phone_number = p, wm_message_content = content, wm_message_type = ty,
             wm_status = st, wm_external_message_id = ext, wm_error_message = None\<rparr>
      in (Inr (), w\<lparr>whatsapp_messages := whatsapp_messages w @ [db_message]\<rparr>))"

section \<open>The messaging gateway client (\<open>service/whatsapp_service.py\<close>)\<close>

text \<open>
  Each operation is one \<open>try\<close> block with an \<open>except Exception\<close> clause that returns a
  failure envelope; what is not an instance of \<open>Exception\<close> leaves the operation. The calls of the logger are left out. Only \<open>send_message\<close> tests
  \<open>NGUMZO_API_KEY\<close> before it builds the payload; its argument \<open>message_type\<close> is never
  read.
\<close>

definition send_message :: "env \<Rightarrow> pystr \<Rightarrow> pystr \<Rightarrow> pystr \<Rightarrow> pydict io" where
  "send_message E phone_number message message_type =
     try_except
       (let phone_number = normalize_phone phone_number in
        if \<not> truthy (pyopt (NGUMZO_API_KEY E)) then
          ret [(py ''success'', PBool False),
               (py ''error'', PStr (py ''NGUMZO_API_KEY not found in environment variables''))]
        else
          let payload = PDict
                [(py ''api_key'', pyopt (NGUMZO_API_KEY E)),
                 (py ''sender_id'', pyopt (NGUMZO_SENDER_ID E)),
                 (py ''to'', PStr phone_number),
                 (py ''message'', PStr message),
                 (py ''message_type'', PStr (py ''text''))];
              headers = [(py ''Content-Type'', py ''application/json'')];
              url = NGUMZO_API_URL E @ py ''/send-message''
          in bnd (await_call_api E
                    \<lparr>rq_url = url, rq_method = py ''POST'', rq_headers = headers, rq_json = payload,
                     rq_timeout = Some 30\<rparr>)
                 (\<lambda>result. ret result))
       (\<lambda>e. ret [(py ''success'', PBool False),
                 (py ''error'', PStr (py ''Exception: '' @ str E e))])"

definition send_template_message ::
  "env \<Rightarrow> pystr \<Rightarrow> pystr \<Rightarrow> pyval list option \<Rightarrow> pydict io" where
  "send_template_message E phone_number template_name parameters =
     try_except
       (let phone_number = normalize_phone phone_number;
            payload = PDict
              [(py ''api_key'', pyopt (NGUMZO_API_KEY E)),
               (py ''sender_id'', pyopt (NGUMZO_SENDER_ID E)),
               (py ''to'', PStr phone_number),
               (py ''message_type'', PStr (py ''template'')),
               (py ''template_name'', PStr template_name),
               (py ''parameters'',
                  py_or (case parameters of None \<Rightarrow> PNone | Some ps \<Rightarrow> PList ps) (PList []))];
            headers = [(py ''Content-Type'', py ''application/json'')];
            url = NGUMZO_API_URL E @ py ''/send-message''
        in bnd (await_call_api E
                  \<lparr>rq_url = url, rq_method = py ''POST'', rq_headers = headers, rq_json = payload,
                   rq_timeout = Some 30\<rparr>)
               (\<lambda>result. ret result))
       (\<lambda>e. ret [(py ''success'', PBool False),
                 (py ''error'', PStr (py ''Exception: '' @ str E e))])"

definition send_media_message ::
  "env \<Rightarrow> pystr \<Rightarrow> pystr \<Rightarrow> pystr \<Rightarrow> pystr option \<Rightarrow> pydict io" where
  "send_media_message E phone_number media_url media_type caption =
     try_except
       (let phone_number = normalize_phone phone_number;
            payload = PDict
              [(py ''api_key'', pyopt (NGUMZO_API_KEY E)),
               (py ''sender_id'', pyopt (NGUMZO_SENDER_ID E)),
               (py ''to'', PStr phone_number),
               (py ''message_type'', PStr media_type),
               (py ''media_url'', PStr media_url),
               (py ''caption'', pyopt caption)];
            headers = [(py ''Content-Type'', py ''application/json'')];
            url = NGUMZO_API_URL E @ py ''/send-message''
        in bnd (await_call_api E
                  \<lparr>rq_url = url, rq_method = py ''POST'', rq_headers = headers, rq_json = payload,
                   rq_timeout = Some 30\<rparr>)
               (\<lambda>result. ret result))
       (\<lambda>e. ret [(py ''success'', PBool False),
                 (py ''error'', PStr (py ''Exception: '' @ str E e))])"

section \<open>The request handlers (\<open>main.py\<close>)\<close>

text \<open>
  The request bodies are records, as the framework hands them over after validation; a
  field with the default \<open>None\<close> is an option. Each is declared before its handler.
\<close>

record WaitingListCreate =
  username :: pystr
  phone_number :: pystr

text \<open>
  \<open>create_waiting_list_item\<close>. \<open>HTTPException\<close> is a subclass of \<open>Exception\<close>, so the
  one raised for a duplicate inside the \<open>try\<close> block reaches the \<open>except\<close> clause of the
  same block. The two emoji of the welcome message are the code points \<open>U+1F44B\<close> and
  \<open>U+1F680\<close>.
\<close>

definition create_waiting_list_item :: "env \<Rightarrow> WaitingListCreate \<Rightarrow> pydict io" where
  "create_waiting_list_item E item =
     try_except
       (bnd (query_waiting_list_first (WaitingListCreate.phone_number item)) (\<lambda>existing.
        if existing \<noteq> None then
          raise (HTTPException 400 (PStr (py ''Phone number already in waiting list'')))
        else
          bnd (add_waiting_list (WaitingListCreate.username item)
                 (WaitingListCreate.phone_number item)) (\<lambda>db_item.
          let message = py ''Hello '' @ WaitingListCreate.username item @ py '', '' @
                [0x1F44B, 0x0A, 0x0A] @
                py ''Thanks for joining our waiting list! We'll notify you soon when we launch. '' @
                [0x1F680]
          in bnd (send_message E (WaitingListCreate.phone_number item) message (py ''text''))
               (\<lambda>whatsapp_result.
          ret [(py ''message'', PStr (py ''Added to waiting list'')),
               (py ''id'', PInt (int (wl_id db_item))),
               (py ''whatsapp_sent'', dict_get whatsapp_result (py ''success'') (PBool False))]))))
       (\<lambda>e. raise (HTTPException 422 (PStr (str E e))))"

text \<open>
  The expression \<open>result.get("data", {}).get("messages", [{}])[0].get("id")\<close>, which the
  three send handlers share word for word.
\<close>

definition external_message_id_of :: "pydict \<Rightarrow> exn + pyval" where
  "external_message_id_of result =
     (case get (dict_get result (py ''data'') (PDict [])) (py ''messages'') (PList [PDict []]) of
        Inl e \<Rightarrow> Inl e
      | Inr messages \<Rightarrow>
          (case getitem_int messages 0 of
             Inl e \<Rightarrow> Inl e
           | Inr m \<Rightarrow> get m (py ''id'') PNone))"

record WhatsAppTextMessage =
  phone_number :: pystr
  message :: pystr

definition send_whatsapp_text :: "env \<Rightarrow> WhatsAppTextMessage \<Rightarrow> pydict io" where
  "send_whatsapp_text E request =
     try_except
       (bnd (send_message E (WhatsAppTextMessage.phone_number request) (message request)
               (py ''text'')) (\<lambda>result.
        bnd (if truthy (dict_get result (py ''success'') PNone) then
               bnd (lift (external_message_id_of result)) (\<lambda>ext.
               add_whatsapp_message (WhatsAppTextMessage.phone_number request)
                 (message request) (py ''text'') (py ''sent'') ext)
             else ret ()) (\<lambda>_.
        ret result)))
       (\<lambda>e. raise (HTTPException 500 (PStr (str E e))))"

record WhatsAppTemplateMessage =
  phone_number :: pystr
  template_name :: pystr
  parameters :: "pyval list option"

definition send_whatsapp_template :: "env \<Rightarrow> WhatsAppTemplateMessage \<Rightarrow> pydict io" where
  "send_whatsapp_template E request =
     try_except
       (bnd (send_template_message E (WhatsAppTemplateMessage.phone_number request)
               (WhatsAppTemplateMessage.template_name request) (parameters request))
          (\<lambda>result.
        bnd (if truthy (dict_get result (py ''success'') PNone) then
               bnd (lift (external_message_id_of result)) (\<lambda>ext.
               add_whatsapp_message (WhatsAppTemplateMessage.phone_number request)
                 (py ''Template: '' @ WhatsAppTemplateMessage.template_name request)
                 (py ''template'') (py ''sent'') ext)
             else ret ()) (\<lambda>_.
        ret result)))
       (\<lambda>e. raise (HTTPException 500 (PStr (str E e))))"

record WhatsAppMediaMessage =
  phone_number :: pystr
  media_url :: pystr
  media_type :: pystr
  caption :: "pystr option"

definition send_whatsapp_media :: "env \<Rightarrow> WhatsAppMediaMessage \<Rightarrow> pydict io" where
  "send_whatsapp_media E request =
     try_except
       (bnd (send_media_message E (WhatsAppMediaMessage.phone_number request)
               (media_url request) (media_type request) (caption request)) (\<lambda>result.
        bnd (if truthy (dict_get result (py ''success'') PNone) then
               bnd (lift (external_message_id_of result)) (\<lambda>ext.
               add_whatsapp_message (WhatsAppMediaMessage.phone_number request)
                 (media_url request) (media_type request) (py ''sent'') ext)
             else ret ()) (\<lambda>_.
        ret result)))
       (\<lambda>e. raise (HTTPException 500 (PStr (str E e))))"

text \<open>
  \<open>get_gemini_response\<close> has no \<open>try\<close> block: it calls \<open>call_api\<close> itself (without a
  timeout), subscripts the result, and whatever a subscript raises leaves the handler.
\<close>

record GeminiRequest =
  prompt :: pystr

definition get_gemini_response :: "env \<Rightarrow> GeminiRequest \<Rightarrow> pydict io" where
  "get_gemini_response E request =
     (let payload = PDict
            [(py ''contents'',
              PList [PDict [(py ''parts'', PList [PDict [(py ''text'', PStr (prompt request))]])]])]
      in bnd (await_call_api E
                \<lparr>rq_url = GEMINI_API_URL @ py ''?key='' @ format_opt (GEMINI_API_KEY E),
                 rq_method = py ''POST'',
                 rq_headers = [(py ''Content-Type'', py ''application/json'')],
                 rq_json = payload, rq_timeout = None\<rparr>) (\<lambda>result.
         bnd (lift (getitem_str (PDict result) (py ''success''))) (\<lambda>success.
         if \<not> truthy success then
           raise (HTTPException 500 (dict_get result (py ''error'') (PStr (py ''Unknown error''))))
         else
           bnd (lift (getitem_str (PDict result) (py ''data''))) (\<lambda>data.
           bnd (lift (getitem_str data (py ''candidates''))) (\<lambda>candidates.
           bnd (lift (getitem_int candidates 0)) (\<lambda>candidate.
           bnd (lift (getitem_str candidate (py ''content''))) (\<lambda>content.
           bnd (lift (getitem_str content (py ''parts''))) (\<lambda>parts.
           bnd (lift (getitem_int parts 0)) (\<lambda>part.
           bnd (lift (getitem_str part (py ''text''))) (\<lambda>text.
           ret [(py ''response'', text)]))))))))))"

section \<open>The normalizer as the specification words it\<close>

text \<open>
  The four steps of the specification, written from its sentences and independent of the
  code above: the whitespace is trimmed from both ends, the characters of the class
  \<open>keep\<close> and the plus sign survive, and the case distinction looks at the first characters
  of what is left. The class of characters is a parameter: the specification says
  "decimal digit", the characters \<open>0\<close> to \<open>9\<close>.
\<close>

definition decimal_digit :: "nat \<Rightarrow> bool" where
  "decimal_digit c \<longleftrightarrow> of_char CHR ''0'' \<le> c \<and> c \<le> of_char CHR ''9''"

fun trim_front :: "pystr \<Rightarrow> pystr" where
  "trim_front [] = []"
| "trim_front (c # cs) = (if isspace c then trim_front cs else c # cs)"

definition trim :: "pystr \<Rightarrow> pystr" where
  "trim s = rev (trim_front (rev (trim_front s)))"

fun canonical_prefix :: "pystr \<Rightarrow> pystr" where
  "canonical_prefix [] = py ''+''"
| "canonical_prefix (c # cs) =
     (if c = of_char CHR ''0'' then py ''+254'' @ cs
      else if take 3 (c # cs) = py ''254'' then py ''+'' @ (c # cs)
      else if c \<noteq> of_char CHR ''+'' then py ''+'' @ (c # cs)
      else c # cs)"

definition normalize_spec :: "(nat \<Rightarrow> bool) \<Rightarrow> pystr \<Rightarrow> pystr" where
  "normalize_spec keep s =
     canonical_prefix (filter (\<lambda>c. keep c \<or> c = of_char CHR ''+'') (trim s))"

section \<open>The specification's notions for the handlers\<close>

text \<open>
  A path into a JSON value, as the specification writes
  \<open>candidates[0].content.parts[0].text\<close>: a key selects in an object, an index in an array,
  and the path is absent when a step finds neither.
\<close>

datatype step = Key pystr | Index nat

fun lookup_path :: "pyval \<Rightarrow> step list \<Rightarrow> pyval option" where
  "lookup_path v [] = Some v"
| "lookup_path (PDict d) (Key k # p) =
     (case map_of d k of None \<Rightarrow> None | Some v \<Rightarrow> lookup_path v p)"
| "lookup_path (PList xs) (Index i # p) =
     (if i < length xs then lookup_path (xs ! i) p else None)"
| "lookup_path _ _ = None"

text \<open>The characters the filter of the normalizer lets through.\<close>

definition phone_char :: "nat \<Rightarrow> bool" where
  "phone_char c \<longleftrightarrow> isdigit c \<or> c = of_char CHR ''+''"

text \<open>The failure envelope: \<open>success\<close> is false and \<open>error\<close> is a text.\<close>

definition failure_envelope :: "pystr \<Rightarrow> pydict" where
  "failure_envelope msg = [(py ''success'', PBool False), (py ''error'', PStr msg)]"

text \<open>The errors a subscript raises.\<close>

definition lookup_error :: "exn \<Rightarrow> bool" where
  "lookup_error e =
     (case e of KeyError k \<Rightarrow> True | IndexError \<Rightarrow> True | TypeError \<Rightarrow> True | _ \<Rightarrow> False)"

section \<open>Concrete environments, worlds and requests\<close>

text \<open>The decimal numeral of a number, as an f-string interpolates an \<open>int\<close>.\<close>

fun str_nat :: "nat \<Rightarrow> pystr" where
  "str_nat n =
     (if n < 10 then [of_char CHR ''0'' + n]
      else str_nat (n div 10) @ [of_char CHR ''0'' + n mod 10])"

text \<open>
  \<open>str(e)\<close> for the concrete runs. An \<open>HTTPException\<close> with a text as detail is rendered
  as Starlette's \<open>__str__\<close> does, status, colon, space, detail; \<open>Error\<close> and \<open>BaseError\<close>
  are given by their text; \<open>str(CancelledError())\<close> is empty. The message of a built-in
  error depends on the operands and on the interpreter's version: the name of the class
  stands in for it, and so does \<open>detail\<close> for a detail that is not a text. No statement
  below shows a text that comes from a stand-in.
\<close>

definition exn_text :: "exn \<Rightarrow> pystr" where
  "exn_text e =
     (case e of
        HTTPException c d \<Rightarrow>
          str_nat c @ py '': '' @ (case d of PStr m \<Rightarrow> m | _ \<Rightarrow> py ''detail'')
      | AttributeError \<Rightarrow> py ''AttributeError''
      | IndexError \<Rightarrow> py ''IndexError''
      | KeyError k \<Rightarrow> py ''KeyError''
      | TypeError \<Rightarrow> py ''TypeError''
      | Error m \<Rightarrow> m
      | CancelledError \<Rightarrow> []
      | BaseError m \<Rightarrow> m)"

text \<open>
  An envelope with which the gateway accepts a message, one that reports success with an
  empty list of messages, and environments that differ in the key and in what the
  transport does.
\<close>

definition accepted :: pydict where
  "accepted =
     [(py ''success'', PBool True),
      (py ''data'', PDict [(py ''messages'', PList [PDict [(py ''id'', PStr (py ''wamid.1''))]])])]"

definition env_accepting :: env where
  "env_accepting =
     \<lparr>NGUMZO_API_KEY = Some (py ''secret''),
      NGUMZO_API_URL = py ''https://ngumzo.com/v1'',
      NGUMZO_SENDER_ID = Some (py ''aisha''),
      GEMINI_API_KEY = Some (py ''gkey''),
      call_api = (\<lambda>rq. Inr accepted),
      str = exn_text\<rparr>"

definition env_no_key :: env where
  "env_no_key = env_accepting\<lparr>NGUMZO_API_KEY := None\<rparr>"

definition unlisted :: pydict where
  "unlisted = [(py ''success'', PBool True), (py ''data'', PDict [(py ''messages'', PList [])])]"

definition env_unlisted :: env where
  "env_unlisted = env_accepting\<lparr>call_api := (\<lambda>rq. Inr unlisted)\<rparr>"

definition env_timeout :: env where
  "env_timeout = env_accepting\<lparr>call_api := (\<lambda>rq. Inl (Error (py ''timed out'')))\<rparr>"

definition env_cancelled :: env where
  "env_cancelled = env_accepting\<lparr>call_api := (\<lambda>rq. Inl CancelledError)\<rparr>"

definition gemini_answer :: pydict where
  "gemini_answer =
     [(py ''success'', PBool True),
      (py ''data'', PDict [(py ''candidates'', PList [PDict [(py ''content'',
         PDict [(py ''parts'', PList [PDict [(py ''text'', PStr (py ''Habari''))]])])]])])]"

definition env_gemini :: env where
  "env_gemini = env_accepting\<lparr>call_api := (\<lambda>rq. Inr gemini_answer)\<rparr>"

definition env_gemini_blocked :: env where
  "env_gemini_blocked =
     env_accepting\<lparr>call_api := (\<lambda>rq. Inr
       [(py ''success'', PBool True), (py ''data'', PDict [(py ''candidates'', PList [])])])\<rparr>"

definition world_empty :: world where
  "world_empty = \<lparr>calls = [], waiting_list = [], whatsapp_messages = []\<rparr>"

definition world_amina :: world where
  "world_amina =
     \<lparr>calls = [],
      waiting_list =
        [\<lparr>wl_id = 1, wl_username = py ''Amina'', wl_phone_number = py ''0712345678''\<rparr>],
      whatsapp_messages = []\<rparr>"

definition item_amina :: WaitingListCreate where
  "item_amina =
     \<lparr>WaitingListCreate.username = py ''Amina Two'',
      WaitingListCreate.phone_number = py ''0712345678''\<rparr>"

definition text_hello :: WhatsAppTextMessage where
  "text_hello = \<lparr>WhatsAppTextMessage.phone_number = py ''0712345678'', message = py ''Hello''\<rparr>"

definition template_welcome :: WhatsAppTemplateMessage where
  "template_welcome =
     \<lparr>WhatsAppTemplateMessage.phone_number = py ''0712345678'',
      template_name = py ''welcome'', parameters = None\<rparr>"

definition media_photo :: WhatsAppMediaMessage where
  "media_photo =
     \<lparr>WhatsAppMediaMessage.phone_number = py ''0712345678'',
      media_url = py ''https://x.test/a.png'', media_type = py ''image'', caption = None\<rparr>"

definition gemini_hello :: GeminiRequest where
  "gemini_hello = \<lparr>prompt = py ''Hello''\<rparr>"

section \<open>Character classes\<close>

lemma isdigit_ge: "isdigit c \<Longrightarrow> 0x30 \<le> c"
proof -
  have "list_all (\<lambda>(lo, hi). 0x30 \<le> lo) digit_ranges"
    by (simp add: digit_ranges_def)
  then show "isdigit c \<Longrightarrow> 0x30 \<le> c"
    unfolding isdigit_def list_all_iff list_ex_iff by fastforce
qed

lemma isdigit_latin1:
  "c < 0x100 \<Longrightarrow>
   isdigit c \<longleftrightarrow> (0x30 \<le> c \<and> c \<le> 0x39) \<or> c = 0xB2 \<or> c = 0xB3 \<or> c = 0xB9"
  by (simp add: isdigit_def digit_ranges_def) arith

lemma isdigit_gap1: "0x1372 \<le> c \<Longrightarrow> c < 0x17E0 \<Longrightarrow> \<not> isdigit c"
  by (simp add: isdigit_def digit_ranges_def)

lemma isdigit_gap2: "0x1C5A \<le> c \<Longrightarrow> c < 0x2070 \<Longrightarrow> \<not> isdigit c"
  by (simp add: isdigit_def digit_ranges_def)

lemma isdigit_gap3: "0x2793 \<le> c \<Longrightarrow> c < 0xA620 \<Longrightarrow> \<not> isdigit c"
  by (simp add: isdigit_def digit_ranges_def)

text \<open>No digit is whitespace: the whitespace above the space character lies in the gaps
  of the digit table.\<close>

lemma isdigit_not_isspace: "isdigit c \<Longrightarrow> \<not> isspace c"
proof
  assume d: "isdigit c" and s: "isspace c"
  from d have "0x30 \<le> c" by (rule isdigit_ge)
  with s have "c = 0x85 \<or> c = 0xA0 \<or> c = 0x1680 \<or> (0x2000 \<le> c \<and> c \<le> 0x200A) \<or>
      c = 0x2028 \<or> c = 0x2029 \<or> c = 0x202F \<or> c = 0x205F \<or> c = 0x3000"
    by (simp add: isspace_def)
  then consider "c < 0x100" "c = 0x85 \<or> c = 0xA0" | "0x1372 \<le> c" "c < 0x17E0"
    | "0x1C5A \<le> c" "c < 0x2070" | "0x2793 \<le> c" "c < 0xA620"
    by linarith
  then show False
  proof cases
    case 1
    with d show False by (auto simp: isdigit_latin1)
  next
    case 2
    with d show False by (simp add: isdigit_gap1)
  next
    case 3
    with d show False by (simp add: isdigit_gap2)
  next
    case 4
    with d show False by (simp add: isdigit_gap3)
  qed
qed

lemma plus_not_isspace: "\<not> isspace (of_char CHR ''+'')"
  by (simp add: isspace_def)

lemma phone_char_not_isspace: "phone_char c \<Longrightarrow> \<not> isspace c"
  using isdigit_not_isspace plus_not_isspace by (auto simp: phone_char_def)

lemma strip_no_space:
  assumes "\<forall>c \<in> set s. \<not> isspace c"
  shows "strip s = s"
proof -
  have "dropWhile isspace xs = xs" if "\<forall>c \<in> set xs. \<not> isspace c" for xs
    using that by (cases xs) auto
  from this [of s] this [of "rev s"] assms show ?thesis
    by (simp add: strip_def)
qed

section \<open>The phone normalizer\<close>

lemma trim_front_dropWhile: "trim_front s = dropWhile isspace s"
  by (induction s) auto

lemma trim_strip: "trim s = strip s"
  by (simp add: trim_def strip_def trim_front_dropWhile)

lemma canonical_prefix_startswith:
  "canonical_prefix k =
     (if startswith k (py ''0'') then py ''+254'' @ drop 1 k
      else if startswith k (py ''254'') then py ''+'' @ k
      else if \<not> startswith k (py ''+'') then py ''+'' @ k
      else k)"
  by (cases k) (auto simp: startswith_def)

text \<open>
  Claim C2, as the specification states it: the normalizer strips the whitespace, removes
  every character that is not a decimal digit or \<open>+\<close>, and then settles the prefix. This
  fails on the code. For the one-character string \<open>U+00B2\<close> (superscript two) the steps of
  the specification remove the character and give \<open>+\<close>; the code keeps it, because
  \<open>isdigit\<close> holds of it, and gives \<open>+\<close> followed by \<open>U+00B2\<close>.
\<close>

theorem normalize_phone_keeps_superscript_two:
  "normalize_phone [0xB2] = [0x2B, 0xB2] \<and> normalize_spec decimal_digit [0xB2] = [0x2B]"
  by (simp add: normalize_phone_def strip_def isspace_def isdigit_latin1 startswith_def
      normalize_spec_def trim_def decimal_digit_def)

text \<open>
  Claim C2, amended: for every input string the normalizer computes exactly the steps of
  the specification, in that order, where the characters that survive the second step are
  \<open>+\<close> and those of which \<open>str.isdigit\<close> holds (the decimal digits and the other Unicode
  digit characters). In particular the example of the specification holds.
\<close>

theorem normalize_phone_steps:
  "normalize_phone s = normalize_spec isdigit s \<and>
   normalize_phone (py ''  0712-345-678 '') = py ''+254712345678''"
proof
  show "normalize_phone s = normalize_spec isdigit s"
    unfolding normalize_phone_def normalize_spec_def Let_def trim_strip
      canonical_prefix_startswith by simp
  show "normalize_phone (py ''  0712-345-678 '') = py ''+254712345678''"
    by (simp add: normalize_phone_def strip_def isspace_def isdigit_latin1 startswith_def)
qed

text \<open>Every result of the normalizer is a plus sign followed by kept characters.\<close>

lemma normalize_phone_shape:
  "\<exists>t. normalize_phone s = of_char CHR ''+'' # t \<and> (\<forall>c \<in> set t. phone_char c)"
proof -
  define k where "k = filter (\<lambda>c. isdigit c \<or> c = of_char CHR ''+'') (strip s)"
  have k: "\<forall>c \<in> set k. phone_char c"
    by (auto simp: k_def phone_char_def)
  have d: "phone_char 50" "phone_char 53" "phone_char 52"
    by (simp_all add: phone_char_def isdigit_latin1)
  have n: "normalize_phone s =
      (if startswith k (py ''0'') then py ''+254'' @ drop 1 k
       else if startswith k (py ''254'') then py ''+'' @ k
       else if \<not> startswith k (py ''+'') then py ''+'' @ k
       else k)"
    by (simp add: normalize_phone_def k_def)
  show ?thesis
  proof (cases k)
    case Nil
    then show ?thesis by (simp add: n startswith_def)
  next
    case (Cons a as)
    with k have "\<forall>c \<in> set as. phone_char c" "phone_char a" by auto
    with Cons d show ?thesis by (auto simp: n startswith_def)
  qed
qed

text \<open>Such a string is a fixed point: nothing is stripped, nothing is filtered out, and
  the last branch of the case distinction applies.\<close>

lemma normalize_phone_fixed:
  assumes "\<forall>c \<in> set t. phone_char c"
  shows "normalize_phone (of_char CHR ''+'' # t) = of_char CHR ''+'' # t"
proof -
  have "\<forall>c \<in> set (of_char CHR ''+'' # t). \<not> isspace c"
    using assms phone_char_not_isspace plus_not_isspace by auto
  then have "strip (of_char CHR ''+'' # t) = of_char CHR ''+'' # t"
    by (rule strip_no_space)
  moreover have "filter (\<lambda>c. isdigit c \<or> c = of_char CHR ''+'') t = t"
    using assms by (auto simp: phone_char_def intro: filter_True)
  ultimately show ?thesis
    by (simp add: normalize_phone_def startswith_def)
qed

text \<open>
  Claim C7: the phone normalizer is idempotent, \<open>normalize(normalize(x)) = normalize(x)\<close>
  for every input string \<open>x\<close>.
\<close>

theorem normalize_phone_idempotent:
  "normalize_phone (normalize_phone x) = normalize_phone x"
proof -
  obtain t where "normalize_phone x = of_char CHR ''+'' # t" "\<forall>c \<in> set t. phone_char c"
    using normalize_phone_shape by blast
  then show ?thesis
    using normalize_phone_fixed [of t] by simp
qed

section \<open>The messaging gateway client\<close>

text \<open>
  What each operation does, as one equation: the call it made is the last one recorded,
  and its outcome is the envelope \<open>call_api\<close> returned, the failure envelope for an
  \<open>Exception\<close> that \<open>call_api\<close> raised, or the exception itself when it is not an
  instance of \<open>Exception\<close>. \<open>send_message\<close> without a key returns at once.
\<close>

lemmas io_defs = ret_def raise_def lift_def bnd_def try_except_def await_call_api_def

lemma try_call:
  "try_except (bnd (await_call_api E rq) ret) (\<lambda>e. ret (F e)) w =
     (case call_api E rq of
        Inl e \<Rightarrow> if is_Exception e then Inr (F e) else Inl e
      | Inr r \<Rightarrow> Inr r,
      w\<lparr>calls := calls w @ [rq]\<rparr>)"
  by (simp add: io_defs split: sum.split)

lemma send_message_without_key:
  "\<not> truthy (pyopt (NGUMZO_API_KEY E)) \<Longrightarrow>
   send_message E p m t w =
     (Inr [(py ''success'', PBool False),
           (py ''error'', PStr (py ''NGUMZO_API_KEY not found in environment variables''))], w)"
  by (simp add: send_message_def try_except_def ret_def)

lemma send_message_with_key:
  "truthy (pyopt (NGUMZO_API_KEY E)) \<Longrightarrow>
   rq = \<lparr>rq_url = NGUMZO_API_URL E @ py ''/send-message'', rq_method = py ''POST'',
         rq_headers = [(py ''Content-Type'', py ''application/json'')],
         rq_json = PDict
           [(py ''api_key'', pyopt (NGUMZO_API_KEY E)),
            (py ''sender_id'', pyopt (NGUMZO_SENDER_ID E)),
            (py ''to'', PStr (normalize_phone p)),
            (py ''message'', PStr m),
            (py ''message_type'', PStr (py ''text''))],
         rq_timeout = Some 30\<rparr> \<Longrightarrow>
   send_message E p m t w =
     (case call_api E rq of
        Inl e \<Rightarrow>
          if is_Exception e then Inr (failure_envelope (py ''Exception: '' @ str E e))
          else Inl e
      | Inr r \<Rightarrow> Inr r,
      w\<lparr>calls := calls w @ [rq]\<rparr>)"
  unfolding send_message_def Let_def failure_envelope_def
  by (simp only: if_False if_True not_not try_call simp_thms)

lemma send_template_message_eq:
  "rq = \<lparr>rq_url = NGUMZO_API_URL E @ py ''/send-message'', rq_method = py ''POST'',
         rq_headers = [(py ''Content-Type'', py ''application/json'')],
         rq_json = PDict
           [(py ''api_key'', pyopt (NGUMZO_API_KEY E)),
            (py ''sender_id'', pyopt (NGUMZO_SENDER_ID E)),
            (py ''to'', PStr (normalize_phone p)),
            (py ''message_type'', PStr (py ''template'')),
            (py ''template_name'', PStr t),
            (py ''parameters'',
               py_or (case ps of None \<Rightarrow> PNone | Some l \<Rightarrow> PList l) (PList []))],
         rq_timeout = Some 30\<rparr> \<Longrightarrow>
   send_template_message E p t ps w =
     (case call_api E rq of
        Inl e \<Rightarrow>
          if is_Exception e then Inr (failure_envelope (py ''Exception: '' @ str E e))
          else Inl e
      | Inr r \<Rightarrow> Inr r,
      w\<lparr>calls := calls w @ [rq]\<rparr>)"
  unfolding send_template_message_def Let_def failure_envelope_def by (simp only: try_call)

lemma send_media_message_eq:
  "rq = \<lparr>rq_url = NGUMZO_API_URL E @ py ''/send-message'', rq_method = py ''POST'',
         rq_headers = [(py ''Content-Type'', py ''application/json'')],
         rq_json = PDict
           [(py ''api_key'', pyopt (NGUMZO_API_KEY E)),
            (py ''sender_id'', pyopt (NGUMZO_SENDER_ID E)),
            (py ''to'', PStr (normalize_phone p)),
            (py ''message_type'', PStr mt),
            (py ''media_url'', PStr u),
            (py ''caption'', pyopt c)],
         rq_timeout = Some 30\<rparr> \<Longrightarrow>
   send_media_message E p u mt c w =
     (case call_api E rq of
        Inl e \<Rightarrow>
          if is_Exception e then Inr (failure_envelope (py ''Exception: '' @ str E e))
          else Inl e
      | Inr r \<Rightarrow> Inr r,
      w\<lparr>calls := calls w @ [rq]\<rparr>)"
  unfolding send_media_message_def Let_def failure_envelope_def by (simp only: try_call)

lemma send_message_ex:
  assumes "truthy (pyopt (NGUMZO_API_KEY E))"
  shows "\<exists>rq. send_message E p m t w =
       (case call_api E rq of
          Inl e \<Rightarrow>
            if is_Exception e then Inr (failure_envelope (py ''Exception: '' @ str E e))
            else Inl e
        | Inr r \<Rightarrow> Inr r,
        w\<lparr>calls := calls w @ [rq]\<rparr>) \<and>
     rq_json rq = PDict
       [(py ''api_key'', pyopt (NGUMZO_API_KEY E)),
        (py ''sender_id'', pyopt (NGUMZO_SENDER_ID E)),
        (py ''to'', PStr (normalize_phone p)),
        (py ''message'', PStr m),
        (py ''message_type'', PStr (py ''text''))]"
  by (rule exI, rule conjI, rule send_message_with_key [OF assms refl], simp)

lemma send_template_message_ex:
  "\<exists>rq. send_template_message E p t ps w =
       (case call_api E rq of
          Inl e \<Rightarrow>
            if is_Exception e then Inr (failure_envelope (py ''Exception: '' @ str E e))
            else Inl e
        | Inr r \<Rightarrow> Inr r,
        w\<lparr>calls := calls w @ [rq]\<rparr>) \<and>
     rq_json rq = PDict
       [(py ''api_key'', pyopt (NGUMZO_API_KEY E)),
        (py ''sender_id'', pyopt (NGUMZO_SENDER_ID E)),
        (py ''to'', PStr (normalize_phone p)),
        (py ''message_type'', PStr (py ''template'')),
        (py ''template_name'', PStr t),
        (py ''parameters'',
           py_or (case ps of None \<Rightarrow> PNone | Some l \<Rightarrow> PList l) (PList []))]"
  by (rule exI, rule conjI, rule send_template_message_eq [OF refl], simp)

lemma send_media_message_ex:
  "\<exists>rq. send_media_message E p u mt c w =
       (case call_api E rq of
          Inl e \<Rightarrow>
            if is_Exception e then Inr (failure_envelope (py ''Exception: '' @ str E e))
            else Inl e
        | Inr r \<Rightarrow> Inr r,
        w\<lparr>calls := calls w @ [rq]\<rparr>) \<and>
     rq_json rq = PDict
       [(py ''api_key'', pyopt (NGUMZO_API_KEY E)),
        (py ''sender_id'', pyopt (NGUMZO_SENDER_ID E)),
        (py ''to'', PStr (normalize_phone p)),
        (py ''message_type'', PStr mt),
        (py ''media_url'', PStr u),
        (py ''caption'', pyopt c)]"
  by (rule exI, rule conjI, rule send_media_message_eq [OF refl], simp)

text \<open>What leaves an operation as an exception is not an instance of \<open>Exception\<close>.\<close>

lemma escaped_not_Exception:
  "(case x of Inl e \<Rightarrow> if is_Exception e then Inr (F e) else Inl e | Inr r \<Rightarrow> Inr r) = Inl e \<Longrightarrow>
   \<not> is_Exception e"
  by (auto split: sum.splits if_splits)

lemma send_message_raises:
  assumes "fst (send_message E p m t w) = Inl e"
  shows "\<not> is_Exception e"
proof (cases "truthy (pyopt (NGUMZO_API_KEY E))")
  case True
  from send_message_ex [OF True, of p m t w] obtain rq where
    "fst (send_message E p m t w) =
       (case call_api E rq of
          Inl e \<Rightarrow>
            if is_Exception e then Inr (failure_envelope (py ''Exception: '' @ str E e))
            else Inl e
        | Inr r \<Rightarrow> Inr r)"
    by force
  with assms show ?thesis
    by (simp add: escaped_not_Exception)
next
  case False
  with assms show ?thesis
    by (simp add: send_message_without_key)
qed

lemma send_template_message_raises:
  assumes "fst (send_template_message E p t ps w) = Inl e"
  shows "\<not> is_Exception e"
proof -
  from send_template_message_ex [of E p t ps w] obtain rq where
    "fst (send_template_message E p t ps w) =
       (case call_api E rq of
          Inl e \<Rightarrow>
            if is_Exception e then Inr (failure_envelope (py ''Exception: '' @ str E e))
            else Inl e
        | Inr r \<Rightarrow> Inr r)"
    by force
  with assms show ?thesis
    by (simp add: escaped_not_Exception)
qed

lemma send_media_message_raises:
  assumes "fst (send_media_message E p u mt c w) = Inl e"
  shows "\<not> is_Exception e"
proof -
  from send_media_message_ex [of E p u mt c w] obtain rq where
    "fst (send_media_message E p u mt c w) =
       (case call_api E rq of
          Inl e \<Rightarrow>
            if is_Exception e then Inr (failure_envelope (py ''Exception: '' @ str E e))
            else Inl e
        | Inr r \<Rightarrow> Inr r)"
    by force
  with assms show ?thesis
    by (simp add: escaped_not_Exception)
qed

text \<open>
  Claim C1: for each of the three message-send operations, if the provider API key is not
  configured then the operation returns a failure envelope whose error mentions the
  missing key, and no network call is made. \<open>send_message\<close> does so
  (\<open>send_message_without_key\<close>). The other two do not test the key: run without a key
  against a transport that accepts every request, \<open>send_template_message\<close> and
  \<open>send_media_message\<close> each invoke \<open>call_api\<close> once, with \<open>api_key\<close> set to \<open>None\<close> in
  the payload, and return the transport's success envelope.
\<close>

theorem template_and_media_call_api_without_key:
  "NGUMZO_API_KEY env_no_key = None \<and>
   (\<exists>rq. send_template_message env_no_key (py ''0712345678'') (py ''welcome'') None world_empty =
            (Inr accepted, world_empty\<lparr>calls := [rq]\<rparr>) \<and>
          getitem_str (rq_json rq) (py ''api_key'') = Inr PNone) \<and>
   (\<exists>rq. send_media_message env_no_key (py ''0712345678'') (py ''https://x.test/a.png'')
            (py ''image'') None world_empty =
            (Inr accepted, world_empty\<lparr>calls := [rq]\<rparr>) \<and>
          getitem_str (rq_json rq) (py ''api_key'') = Inr PNone)"
proof (intro conjI)
  have k: "NGUMZO_API_KEY env_no_key = None" "calls world_empty = []"
    and c: "call_api env_no_key rq = Inr accepted" for rq
    by (simp_all add: env_no_key_def env_accepting_def world_empty_def)
  show "NGUMZO_API_KEY env_no_key = None"
    by (rule k)
  from send_template_message_ex [of env_no_key "py ''0712345678''" "py ''welcome''" None world_empty]
  show "\<exists>rq. send_template_message env_no_key (py ''0712345678'') (py ''welcome'') None world_empty =
            (Inr accepted, world_empty\<lparr>calls := [rq]\<rparr>) \<and>
          getitem_str (rq_json rq) (py ''api_key'') = Inr PNone"
    by (auto simp: k c)
  from send_media_message_ex [of env_no_key "py ''0712345678''" "py ''https://x.test/a.png''"
      "py ''image''" None world_empty]
  show "\<exists>rq. send_media_message env_no_key (py ''0712345678'') (py ''https://x.test/a.png'')
            (py ''image'') None world_empty =
            (Inr accepted, world_empty\<lparr>calls := [rq]\<rparr>) \<and>
          getitem_str (rq_json rq) (py ''api_key'') = Inr PNone"
    by (auto simp: k c)
qed

text \<open>
  Claim C3, as the specification states it: none of the three gateway client operations
  ever raises an exception to its caller, whatever arises in the delegated call. This
  fails on the code. \<open>except Exception\<close> does not catch \<open>asyncio.CancelledError\<close>: when
  \<open>await call_api(...)\<close> raises it, each of the three operations raises it to its caller.
\<close>

theorem gateway_lets_cancellation_escape:
  "fst (send_message env_cancelled (py ''0712345678'') (py ''Hello'') (py ''text'') world_empty) =
     Inl CancelledError \<and>
   fst (send_template_message env_cancelled (py ''0712345678'') (py ''welcome'') None
          world_empty) = Inl CancelledError \<and>
   fst (send_media_message env_cancelled (py ''0712345678'') (py ''https://x.test/a.png'')
          (py ''image'') None world_empty) = Inl CancelledError"
proof -
  have k: "truthy (pyopt (NGUMZO_API_KEY env_cancelled))"
    and c: "call_api env_cancelled rq = Inl CancelledError" for rq
    by (simp_all add: env_cancelled_def env_accepting_def)
  show ?thesis
    by (simp add: send_message_with_key [OF k refl] send_template_message_eq [OF refl]
        send_media_message_eq [OF refl] c)
qed

text \<open>
  Claim C3, amended: none of the three gateway client operations raises an instance of
  \<open>Exception\<close> to its caller, for every input. Each makes one call (\<open>send_message\<close>
  without a key makes none and returns the failure envelope of the missing key) and
  returns the envelope \<open>call_api\<close> returned; an instance of \<open>Exception\<close> that \<open>call_api\<close>
  raised is caught and converted into the failure envelope whose error is the text
  \<open>Exception: \<close> followed by \<open>str(e)\<close>; an exception that is not an instance of
  \<open>Exception\<close> reaches the caller.
\<close>

theorem gateway_converts_every_Exception:
  "((send_message E p m t w =
       (Inr (failure_envelope (py ''NGUMZO_API_KEY not found in environment variables'')), w)) \<or>
    (\<exists>rq. send_message E p m t w =
       (case call_api E rq of
          Inl e \<Rightarrow>
            if is_Exception e then Inr (failure_envelope (py ''Exception: '' @ str E e))
            else Inl e
        | Inr r \<Rightarrow> Inr r,
        w\<lparr>calls := calls w @ [rq]\<rparr>))) \<and>
   (\<exists>rq. send_template_message E p tn ps w =
      (case call_api E rq of
         Inl e \<Rightarrow>
           if is_Exception e then Inr (failure_envelope (py ''Exception: '' @ str E e))
           else Inl e
       | Inr r \<Rightarrow> Inr r,
       w\<lparr>calls := calls w @ [rq]\<rparr>)) \<and>
   (\<exists>rq. send_media_message E p u mt c w =
      (case call_api E rq of
         Inl e \<Rightarrow>
           if is_Exception e then Inr (failure_envelope (py ''Exception: '' @ str E e))
           else Inl e
       | Inr r \<Rightarrow> Inr r,
       w\<lparr>calls := calls w @ [rq]\<rparr>)) \<and>
   (\<forall>e. fst (send_message E p m t w) = Inl e \<or>
        fst (send_template_message E p tn ps w) = Inl e \<or>
        fst (send_media_message E p u mt c w) = Inl e \<longrightarrow> \<not> is_Exception e)"
proof (intro conjI allI impI)
  show sm: "(send_message E p m t w =
       (Inr (failure_envelope (py ''NGUMZO_API_KEY not found in environment variables'')), w)) \<or>
    (\<exists>rq. send_message E p m t w =
       (case call_api E rq of
          Inl e \<Rightarrow>
            if is_Exception e then Inr (failure_envelope (py ''Exception: '' @ str E e))
            else Inl e
        | Inr r \<Rightarrow> Inr r,
        w\<lparr>calls := calls w @ [rq]\<rparr>))"
  proof (cases "truthy (pyopt (NGUMZO_API_KEY E))")
    case True
    from send_message_ex [OF True, of p m t w] show ?thesis by blast
  next
    case False
    then show ?thesis
      by (simp add: send_message_without_key failure_envelope_def)
  qed
  show st: "\<exists>rq. send_template_message E p tn ps w =
      (case call_api E rq of
         Inl e \<Rightarrow>
           if is_Exception e then Inr (failure_envelope (py ''Exception: '' @ str E e))
           else Inl e
       | Inr r \<Rightarrow> Inr r,
       w\<lparr>calls := calls w @ [rq]\<rparr>)"
    using send_template_message_ex [of E p tn ps w] by blast
  show sd: "\<exists>rq. send_media_message E p u mt c w =
      (case call_api E rq of
         Inl e \<Rightarrow>
           if is_Exception e then Inr (failure_envelope (py ''Exception: '' @ str E e))
           else Inl e
       | Inr r \<Rightarrow> Inr r,
       w\<lparr>calls := calls w @ [rq]\<rparr>)"
    using send_media_message_ex [of E p u mt c w] by blast
  fix e
  assume "fst (send_message E p m t w) = Inl e \<or>
        fst (send_template_message E p tn ps w) = Inl e \<or>
        fst (send_media_message E p u mt c w) = Inl e"
  then show "\<not> is_Exception e"
    using send_message_raises send_template_message_raises send_media_message_raises
    by blast
qed

text \<open>
  Witness for C3: a transport that raises a timeout, an instance of \<open>Exception\<close>, gives the
  failure envelope; a cancelled call is the one exception that leaves an operation, and it
  is not an instance of \<open>Exception\<close>.
\<close>

theorem gateway_converts_every_Exception_witness:
  "fst (send_media_message env_timeout (py ''0712345678'') (py ''https://x.test/a.png'')
          (py ''image'') None world_empty) =
     Inr (failure_envelope (py ''Exception: timed out'')) \<and>
   fst (send_media_message env_cancelled (py ''0712345678'') (py ''https://x.test/a.png'')
          (py ''image'') None world_empty) = Inl CancelledError \<and>
   \<not> is_Exception CancelledError"
proof -
  have t: "call_api env_timeout rq = Inl (Error (py ''timed out''))"
    and s: "str env_timeout (Error (py ''timed out'')) = py ''timed out''"
    and c: "call_api env_cancelled rq = Inl CancelledError" for rq
    by (simp_all add: env_timeout_def env_cancelled_def env_accepting_def exn_text_def)
  from gateway_converts_every_Exception [of env_timeout "py ''0712345678''" "py ''Hello''"
      "py ''text''" world_empty "py ''welcome''" None "py ''https://x.test/a.png''"
      "py ''image''" None]
  have 1: "fst (send_media_message env_timeout (py ''0712345678'') (py ''https://x.test/a.png'')
          (py ''image'') None world_empty) =
     Inr (failure_envelope (py ''Exception: timed out''))"
    by (auto simp: t [simplified] s [simplified])
  from gateway_converts_every_Exception [of env_cancelled "py ''0712345678''" "py ''Hello''"
      "py ''text''" world_empty "py ''welcome''" None "py ''https://x.test/a.png''"
      "py ''image''" None]
  have 2: "fst (send_media_message env_cancelled (py ''0712345678'') (py ''https://x.test/a.png'')
          (py ''image'') None world_empty) = Inl CancelledError"
    by (auto simp: c)
  from gateway_converts_every_Exception [of env_cancelled "py ''0712345678''" "py ''Hello''"
      "py ''text''" world_empty "py ''welcome''" None "py ''https://x.test/a.png''"
      "py ''image''" None] 2
  have 3: "\<not> is_Exception CancelledError"
    by blast
  from 1 2 3 show ?thesis by blast
qed

text \<open>
  Claim C8: when \<open>send_template_message\<close> is called with the parameters absent or
  \<open>None\<close>, the payload it builds has a \<open>parameters\<close> field equal to the empty list; when
  a list is supplied, the field equals that list.
\<close>

theorem template_parameters_default:
  "\<exists>rq. calls (snd (send_template_message E p tn ps w)) = calls w @ [rq] \<and>
     getitem_str (rq_json rq) (py ''parameters'') =
       Inr (PList (case ps of None \<Rightarrow> [] | Some l \<Rightarrow> l))"
proof -
  from send_template_message_ex [of E p tn ps w] obtain rq where
    "calls (snd (send_template_message E p tn ps w)) = calls w @ [rq]"
    "getitem_str (rq_json rq) (py ''parameters'') =
       Inr (py_or (case ps of None \<Rightarrow> PNone | Some l \<Rightarrow> PList l) (PList []))"
    by force
  moreover have "py_or (case ps of None \<Rightarrow> PNone | Some l \<Rightarrow> PList l) (PList []) =
      PList (case ps of None \<Rightarrow> [] | Some l \<Rightarrow> l)"
    by (simp add: py_or_def split: option.split)
  ultimately show ?thesis by auto
qed

text \<open>
  Claim C10: the result of \<open>send_message\<close> does not depend on its \<open>message_type\<close>
  argument: two calls that differ only there return the same envelope and leave the same
  world, and the \<open>message_type\<close> field of a payload sent is always the literal
  \<open>text\<close>.
\<close>

theorem send_message_ignores_message_type:
  "send_message E p m t1 w = send_message E p m t2 w \<and>
   (calls (snd (send_message E p m t1 w)) = calls w \<or>
    (\<exists>rq. calls (snd (send_message E p m t1 w)) = calls w @ [rq] \<and>
       getitem_str (rq_json rq) (py ''message_type'') = Inr (PStr (py ''text''))))"
proof
  show "send_message E p m t1 w = send_message E p m t2 w"
    by (simp add: send_message_def)
  show "calls (snd (send_message E p m t1 w)) = calls w \<or>
    (\<exists>rq. calls (snd (send_message E p m t1 w)) = calls w @ [rq] \<and>
       getitem_str (rq_json rq) (py ''message_type'') = Inr (PStr (py ''text'')))"
  proof (cases "truthy (pyopt (NGUMZO_API_KEY E))")
    case True
    from send_message_ex [OF True, of p m t1 w] obtain rq where
      "calls (snd (send_message E p m t1 w)) = calls w @ [rq]"
      "getitem_str (rq_json rq) (py ''message_type'') = Inr (PStr (py ''text''))"
      by force
    then show ?thesis by blast
  next
    case False
    then show ?thesis by (simp add: send_message_without_key)
  qed
qed

section \<open>The generative-text handler\<close>

text \<open>
  A path through keys and indices is present exactly when the chain of subscripts
  succeeds. A one-character string that \<open>v[0]\<close> takes out of a string is no exception:
  the subscript with a key that follows raises \<open>TypeError\<close> on it.
\<close>

lemma getitem_str_lookup_error: "getitem_str v k = Inl e \<Longrightarrow> lookup_error e"
  by (cases v) (auto simp: lookup_error_def split: option.splits)

lemma getitem_int_lookup_error: "getitem_int v i = Inl e \<Longrightarrow> lookup_error e"
  by (cases v) (auto simp: lookup_error_def split: if_splits)

lemma lookup_path_Key:
  "lookup_path v (Key k # p) =
     (case getitem_str v k of Inl e \<Rightarrow> None | Inr x \<Rightarrow> lookup_path x p)"
  by (cases v) (simp_all split: option.split)

lemma lookup_path_Index_Key:
  "lookup_path v (Index i # Key k # p) =
     (case getitem_int v i of
        Inl e \<Rightarrow> None
      | Inr x \<Rightarrow> (case getitem_str x k of Inl e \<Rightarrow> None | Inr y \<Rightarrow> lookup_path y p))"
  by (cases v) (simp_all add: lookup_path_Key)

lemma get_gemini_response_calls:
  "calls (snd (get_gemini_response E request w)) = calls w @
     [\<lparr>rq_url = GEMINI_API_URL @ py ''?key='' @ format_opt (GEMINI_API_KEY E),
       rq_method = py ''POST'',
       rq_headers = [(py ''Content-Type'', py ''application/json'')],
       rq_json = PDict
         [(py ''contents'',
           PList [PDict [(py ''parts'', PList [PDict [(py ''text'', PStr (prompt request))]])]])],
       rq_timeout = None\<rparr>]"
  unfolding get_gemini_response_def Let_def
  by (simp add: io_defs split: sum.split prod.split)

lemma get_gemini_response_success:
  assumes "call_api E
     \<lparr>rq_url = GEMINI_API_URL @ py ''?key='' @ format_opt (GEMINI_API_KEY E),
       rq_method = py ''POST'',
       rq_headers = [(py ''Content-Type'', py ''application/json'')],
       rq_json = PDict
         [(py ''contents'',
           PList [PDict [(py ''parts'', PList [PDict [(py ''text'', PStr (prompt request))]])]])],
       rq_timeout = None\<rparr> = Inr result"
    and "map_of result (py ''success'') = Some s" "truthy s"
  shows "case lookup_path (PDict result)
          [Key (py ''data''), Key (py ''candidates''), Index 0, Key (py ''content''),
           Key (py ''parts''), Index 0, Key (py ''text'')] of
       Some text \<Rightarrow> fst (get_gemini_response E request w) = Inr [(py ''response'', text)]
     | None \<Rightarrow> \<exists>e. fst (get_gemini_response E request w) = Inl e \<and> lookup_error e"
proof -
  from assms(2) have s: "getitem_str (PDict result) (py ''success'') = Inr s"
    by simp
  show ?thesis
    unfolding get_gemini_response_def Let_def lookup_path_Key lookup_path_Index_Key
    using assms(1,3) s
    by (auto simp add: io_defs simp del: getitem_str.simps getitem_int.simps
        split: sum.split dest: getitem_str_lookup_error getitem_int_lookup_error)
qed

text \<open>
  Claim C4: for every prompt the handler makes one call whose payload is exactly
  \<open>{contents: [{parts: [{text: prompt}]}]}\<close>; when the envelope that comes back has a true
  \<open>success\<close>, the handler returns \<open>{response: text}\<close> for the \<open>text\<close> found under
  \<open>data.candidates[0].content.parts[0].text\<close>, and when that path is absent it raises the
  error of the failing subscript instead of returning a value.
\<close>

theorem get_gemini_response_payload_and_extraction:
  "\<exists>rq. calls (snd (get_gemini_response E request w)) = calls w @ [rq] \<and>
     rq_json rq = PDict
       [(py ''contents'',
         PList [PDict [(py ''parts'', PList [PDict [(py ''text'', PStr (prompt request))]])]])] \<and>
     (\<forall>result s.
        call_api E rq = Inr result \<and> map_of result (py ''success'') = Some s \<and> truthy s \<longrightarrow>
        (case lookup_path (PDict result)
                [Key (py ''data''), Key (py ''candidates''), Index 0, Key (py ''content''),
                 Key (py ''parts''), Index 0, Key (py ''text'')] of
           Some text \<Rightarrow> fst (get_gemini_response E request w) = Inr [(py ''response'', text)]
         | None \<Rightarrow> \<exists>e. fst (get_gemini_response E request w) = Inl e \<and> lookup_error e))"
proof (intro exI conjI allI impI)
  show "calls (snd (get_gemini_response E request w)) = calls w @
     [\<lparr>rq_url = GEMINI_API_URL @ py ''?key='' @ format_opt (GEMINI_API_KEY E),
       rq_method = py ''POST'',
       rq_headers = [(py ''Content-Type'', py ''application/json'')],
       rq_json = PDict
         [(py ''contents'',
           PList [PDict [(py ''parts'', PList [PDict [(py ''text'', PStr (prompt request))]])]])],
       rq_timeout = None\<rparr>]"
    by (rule get_gemini_response_calls)
  show "rq_json \<lparr>rq_url = GEMINI_API_URL @ py ''?key='' @ format_opt (GEMINI_API_KEY E),
       rq_method = py ''POST'',
       rq_headers = [(py ''Content-Type'', py ''application/json'')],
       rq_json = PDict
         [(py ''contents'',
           PList [PDict [(py ''parts'', PList [PDict [(py ''text'', PStr (prompt request))]])]])],
       rq_timeout = None\<rparr> = PDict
       [(py ''contents'',
         PList [PDict [(py ''parts'', PList [PDict [(py ''text'', PStr (prompt request))]])]])]"
    by simp
  fix result s
  assume "call_api E \<lparr>rq_url = GEMINI_API_URL @ py ''?key='' @ format_opt (GEMINI_API_KEY E),
       rq_method = py ''POST'',
       rq_headers = [(py ''Content-Type'', py ''application/json'')],
       rq_json = PDict
         [(py ''contents'',
           PList [PDict [(py ''parts'', PList [PDict [(py ''text'', PStr (prompt request))]])]])],
       rq_timeout = None\<rparr> = Inr result \<and> map_of result (py ''success'') = Some s \<and> truthy s"
  then show "case lookup_path (PDict result)
                [Key (py ''data''), Key (py ''candidates''), Index 0, Key (py ''content''),
                 Key (py ''parts''), Index 0, Key (py ''text'')] of
           Some text \<Rightarrow> fst (get_gemini_response E request w) = Inr [(py ''response'', text)]
         | None \<Rightarrow> \<exists>e. fst (get_gemini_response E request w) = Inl e \<and> lookup_error e"
    using get_gemini_response_success by blast
qed

text \<open>
  Witness for C4: an answer that holds the path gives the response, and an answer with an
  empty list of candidates makes the handler raise.
\<close>

theorem get_gemini_response_witness:
  "(\<forall>rq. call_api env_gemini rq = Inr gemini_answer) \<and>
   map_of gemini_answer (py ''success'') = Some (PBool True) \<and>
   fst (get_gemini_response env_gemini gemini_hello world_empty) =
     Inr [(py ''response'', PStr (py ''Habari''))] \<and>
   (\<exists>e. fst (get_gemini_response env_gemini_blocked gemini_hello world_empty) = Inl e \<and>
      lookup_error e)"
proof (intro conjI)
  show "\<forall>rq. call_api env_gemini rq = Inr gemini_answer"
    by (simp add: env_gemini_def env_accepting_def)
  show "map_of gemini_answer (py ''success'') = Some (PBool True)"
    by (simp add: gemini_answer_def)
  from get_gemini_response_payload_and_extraction [of env_gemini gemini_hello world_empty]
  obtain rq where "\<forall>result s.
        call_api env_gemini rq = Inr result \<and> map_of result (py ''success'') = Some s \<and>
        truthy s \<longrightarrow>
        (case lookup_path (PDict result)
                [Key (py ''data''), Key (py ''candidates''), Index 0, Key (py ''content''),
                 Key (py ''parts''), Index 0, Key (py ''text'')] of
           Some text \<Rightarrow>
             fst (get_gemini_response env_gemini gemini_hello world_empty) =
               Inr [(py ''response'', text)]
         | None \<Rightarrow>
             \<exists>e. fst (get_gemini_response env_gemini gemini_hello world_empty) = Inl e \<and>
               lookup_error e)"
    by blast
  from this [rule_format, of gemini_answer "PBool True"]
  show "fst (get_gemini_response env_gemini gemini_hello world_empty) =
     Inr [(py ''response'', PStr (py ''Habari''))]"
    by (simp add: env_gemini_def env_accepting_def gemini_answer_def)
next
  from get_gemini_response_payload_and_extraction [of env_gemini_blocked gemini_hello world_empty]
  obtain rq where "\<forall>result s.
        call_api env_gemini_blocked rq = Inr result \<and> map_of result (py ''success'') = Some s \<and>
        truthy s \<longrightarrow>
        (case lookup_path (PDict result)
                [Key (py ''data''), Key (py ''candidates''), Index 0, Key (py ''content''),
                 Key (py ''parts''), Index 0, Key (py ''text'')] of
           Some text \<Rightarrow>
             fst (get_gemini_response env_gemini_blocked gemini_hello world_empty) =
               Inr [(py ''response'', text)]
         | None \<Rightarrow>
             \<exists>e. fst (get_gemini_response env_gemini_blocked gemini_hello world_empty) = Inl e \<and>
               lookup_error e)"
    by blast
  from this [rule_format, of
      "[(py ''success'', PBool True), (py ''data'', PDict [(py ''candidates'', PList [])])]"
      "PBool True"]
  show "\<exists>e. fst (get_gemini_response env_gemini_blocked gemini_hello world_empty) = Inl e \<and>
      lookup_error e"
    by (simp add: env_gemini_blocked_def env_accepting_def)
qed


section \<open>The send handlers\<close>

text \<open>
  The expression for the external id raises built-in errors only, and they are instances
  of \<open>Exception\<close>.
\<close>

lemma lookup_error_is_Exception: "lookup_error e \<Longrightarrow> is_Exception e"
  by (cases e) (simp_all add: lookup_error_def)

lemma get_raises: "get v k d = Inl e \<Longrightarrow> e = AttributeError"
  by (cases v) simp_all

lemma external_message_id_of_raises:
  assumes "external_message_id_of r = Inl e"
  shows "is_Exception e"
proof (cases "get (dict_get r (py ''data'') (PDict [])) (py ''messages'') (PList [PDict []])")
  case (Inl a)
  with assms show ?thesis
    by (auto simp: external_message_id_of_def dest: get_raises)
next
  case (Inr messages)
  show ?thesis
  proof (cases "getitem_int messages 0")
    case (Inl a)
    with Inr assms show ?thesis
      by (auto simp: external_message_id_of_def
          dest!: getitem_int_lookup_error lookup_error_is_Exception)
  next
    case (Inr m)
    with \<open>get (dict_get r (py ''data'') (PDict [])) (py ''messages'') (PList [PDict []]) =
        Inr messages\<close> assms
    show ?thesis
      by (auto simp: external_message_id_of_def dest: get_raises)
  qed
qed

text \<open>
  The body the three handlers share, as one equation. What the gateway operation raised
  (never an instance of \<open>Exception\<close>) leaves the handler; an envelope whose \<open>success\<close> is
  not true is returned and nothing is stored; an envelope whose \<open>success\<close> is true is
  returned after one record is appended, unless the expression for the external id raises:
  then the handler raises \<open>HTTPException(500)\<close> and stores nothing.
\<close>

lemma send_handler_outcome:
  assumes "\<And>e w1. op w = (Inl e, w1) \<Longrightarrow> \<not> is_Exception e"
  shows "try_except
       (bnd op (\<lambda>result.
        bnd (if truthy (dict_get result (py ''success'') PNone) then
               bnd (lift (external_message_id_of result)) (\<lambda>ext.
               add_whatsapp_message p c ty st ext)
             else ret ()) (\<lambda>_.
        ret result)))
       (\<lambda>e. raise (HTTPException 500 (PStr (str E e)))) w =
     (case op w of
        (Inl e, w1) \<Rightarrow> (Inl e, w1)
      | (Inr result, w1) \<Rightarrow>
          if truthy (dict_get result (py ''success'') PNone) then
            (case external_message_id_of result of
               Inl e \<Rightarrow> (Inl (HTTPException 500 (PStr (str E e))), w1)
             | Inr ext \<Rightarrow>
                 (Inr result,
                  w1\<lparr>whatsapp_messages := whatsapp_messages w1 @
                     [\<lparr>wm_id = fresh_id (map wm_id (whatsapp_messages w1)),
                       wm_phone_number = p, wm_message_content = c, wm_message_type = ty,
                       wm_status = st, wm_external_message_id = ext,
                       wm_error_message = None\<rparr>]\<rparr>))
          else (Inr result, w1))"
proof (cases "op w")
  case (Pair out w1)
  show ?thesis
  proof (cases out)
    case (Inl e)
    with Pair assms have "\<not> is_Exception e" by blast
    with Pair Inl show ?thesis
      by (simp add: io_defs)
  next
    case (Inr result)
    with Pair show ?thesis
      by (auto simp: io_defs add_whatsapp_message_def Let_def split: sum.splits
          dest: external_message_id_of_raises)
  qed
qed

lemma send_whatsapp_text_outcome:
  "send_whatsapp_text E request w =
     (case send_message E (WhatsAppTextMessage.phone_number request) (message request)
             (py ''text'') w of
        (Inl e, w1) \<Rightarrow> (Inl e, w1)
      | (Inr result, w1) \<Rightarrow>
          if truthy (dict_get result (py ''success'') PNone) then
            (case external_message_id_of result of
               Inl e \<Rightarrow> (Inl (HTTPException 500 (PStr (str E e))), w1)
             | Inr ext \<Rightarrow>
                 (Inr result,
                  w1\<lparr>whatsapp_messages := whatsapp_messages w1 @
                     [\<lparr>wm_id = fresh_id (map wm_id (whatsapp_messages w1)),
                       wm_phone_number = WhatsAppTextMessage.phone_number request,
                       wm_message_content = message request,
                       wm_message_type = py ''text'', wm_status = py ''sent'',
                       wm_external_message_id = ext, wm_error_message = None\<rparr>]\<rparr>))
          else (Inr result, w1))"
  unfolding send_whatsapp_text_def
proof (rule send_handler_outcome)
  fix e w1
  assume "send_message E (WhatsAppTextMessage.phone_number request) (message request)
      (py ''text'') w = (Inl e, w1)"
  then have "fst (send_message E (WhatsAppTextMessage.phone_number request) (message request)
      (py ''text'') w) = Inl e"
    by simp
  then show "\<not> is_Exception e"
    by (rule send_message_raises)
qed

lemma send_whatsapp_template_outcome:
  "send_whatsapp_template E request w =
     (case send_template_message E (WhatsAppTemplateMessage.phone_number request)
             (WhatsAppTemplateMessage.template_name request) (parameters request) w of
        (Inl e, w1) \<Rightarrow> (Inl e, w1)
      | (Inr result, w1) \<Rightarrow>
          if truthy (dict_get result (py ''success'') PNone) then
            (case external_message_id_of result of
               Inl e \<Rightarrow> (Inl (HTTPException 500 (PStr (str E e))), w1)
             | Inr ext \<Rightarrow>
                 (Inr result,
                  w1\<lparr>whatsapp_messages := whatsapp_messages w1 @
                     [\<lparr>wm_id = fresh_id (map wm_id (whatsapp_messages w1)),
                       wm_phone_number = WhatsAppTemplateMessage.phone_number request,
                       wm_message_content =
                         py ''Template: '' @ WhatsAppTemplateMessage.template_name request,
                       wm_message_type = py ''template'', wm_status = py ''sent'',
                       wm_external_message_id = ext, wm_error_message = None\<rparr>]\<rparr>))
          else (Inr result, w1))"
  unfolding send_whatsapp_template_def
proof (rule send_handler_outcome)
  fix e w1
  assume "send_template_message E (WhatsAppTemplateMessage.phone_number request)
      (WhatsAppTemplateMessage.template_name request) (parameters request) w = (Inl e, w1)"
  then have "fst (send_template_message E (WhatsAppTemplateMessage.phone_number request)
      (WhatsAppTemplateMessage.template_name request) (parameters request) w) = Inl e"
    by simp
  then show "\<not> is_Exception e"
    by (rule send_template_message_raises)
qed

lemma send_whatsapp_media_outcome:
  "send_whatsapp_media E request w =
     (case send_media_message E (WhatsAppMediaMessage.phone_number request)
             (media_url request) (media_type request) (caption request) w of
        (Inl e, w1) \<Rightarrow> (Inl e, w1)
      | (Inr result, w1) \<Rightarrow>
          if truthy (dict_get result (py ''success'') PNone) then
            (case external_message_id_of result of
               Inl e \<Rightarrow> (Inl (HTTPException 500 (PStr (str E e))), w1)
             | Inr ext \<Rightarrow>
                 (Inr result,
                  w1\<lparr>whatsapp_messages := whatsapp_messages w1 @
                     [\<lparr>wm_id = fresh_id (map wm_id (whatsapp_messages w1)),
                       wm_phone_number = WhatsAppMediaMessage.phone_number request,
                       wm_message_content = media_url request,
                       wm_message_type = media_type request, wm_status = py ''sent'',
                       wm_external_message_id = ext, wm_error_message = None\<rparr>]\<rparr>))
          else (Inr result, w1))"
  unfolding send_whatsapp_media_def
proof (rule send_handler_outcome)
  fix e w1
  assume "send_media_message E (WhatsAppMediaMessage.phone_number request)
      (media_url request) (media_type request) (caption request) w = (Inl e, w1)"
  then have "fst (send_media_message E (WhatsAppMediaMessage.phone_number request)
      (media_url request) (media_type request) (caption request) w) = Inl e"
    by simp
  then show "\<not> is_Exception e"
    by (rule send_media_message_raises)
qed

text \<open>
  Claim C5: for each of the three send handlers a message record is persisted if and only
  if the result envelope has \<open>success\<close> true, and with \<open>success\<close> false the store is
  unchanged. The second half holds (the three lemmas above). The first half fails on an
  envelope that reports success with an empty list of messages,
  \<open>{success: True, data: {messages: []}}\<close>: the gateway operation makes its call and
  returns this envelope, the defaults \<open>{}\<close> and \<open>[{}]\<close> of the expression for the external
  id do not apply, \<open>[][0]\<close> raises \<open>IndexError\<close>, and each handler raises
  \<open>HTTPException(500)\<close> with nothing stored.
\<close>

theorem success_with_empty_messages_not_persisted:
  "truthy (dict_get unlisted (py ''success'') PNone) \<and>
   fst (send_message env_unlisted (py ''0712345678'') (py ''Hello'') (py ''text'')
          world_empty) = Inr unlisted \<and>
   fst (send_whatsapp_text env_unlisted text_hello world_empty) =
     Inl (HTTPException 500 (PStr (str env_unlisted IndexError))) \<and>
   whatsapp_messages (snd (send_whatsapp_text env_unlisted text_hello world_empty)) = [] \<and>
   length (calls (snd (send_whatsapp_text env_unlisted text_hello world_empty))) = 1 \<and>
   fst (send_template_message env_unlisted (py ''0712345678'') (py ''welcome'') None
          world_empty) = Inr unlisted \<and>
   fst (send_whatsapp_template env_unlisted template_welcome world_empty) =
     Inl (HTTPException 500 (PStr (str env_unlisted IndexError))) \<and>
   whatsapp_messages (snd (send_whatsapp_template env_unlisted template_welcome world_empty)) =
     [] \<and>
   length (calls (snd (send_whatsapp_template env_unlisted template_welcome world_empty))) = 1 \<and>
   fst (send_media_message env_unlisted (py ''0712345678'') (py ''https://x.test/a.png'')
          (py ''image'') None world_empty) = Inr unlisted \<and>
   fst (send_whatsapp_media env_unlisted media_photo world_empty) =
     Inl (HTTPException 500 (PStr (str env_unlisted IndexError))) \<and>
   whatsapp_messages (snd (send_whatsapp_media env_unlisted media_photo world_empty)) = [] \<and>
   length (calls (snd (send_whatsapp_media env_unlisted media_photo world_empty))) = 1"
proof -
  have k: "truthy (pyopt (NGUMZO_API_KEY env_unlisted))"
    and c: "call_api env_unlisted rq = Inr unlisted" for rq
    by (simp_all add: env_unlisted_def env_accepting_def)
  have t: "truthy (dict_get unlisted (py ''success'') PNone)"
    by (simp add: unlisted_def dict_get_def)
  have x: "external_message_id_of unlisted = Inl IndexError"
    by (simp add: external_message_id_of_def unlisted_def dict_get_def)
  have w: "whatsapp_messages world_empty = []" "calls world_empty = []"
    by (simp_all add: world_empty_def)
  have r: "WhatsAppTextMessage.phone_number text_hello = py ''0712345678''"
    "message text_hello = py ''Hello''"
    "WhatsAppTemplateMessage.phone_number template_welcome = py ''0712345678''"
    "WhatsAppTemplateMessage.template_name template_welcome = py ''welcome''"
    "parameters template_welcome = None"
    "WhatsAppMediaMessage.phone_number media_photo = py ''0712345678''"
    "media_url media_photo = py ''https://x.test/a.png''"
    "media_type media_photo = py ''image''" "caption media_photo = None"
    by (simp_all add: text_hello_def template_welcome_def media_photo_def)
  have m: "fst (send_message env_unlisted (py ''0712345678'') (py ''Hello'') (py ''text'')
         world_empty) = Inr unlisted"
    "length (calls (snd (send_message env_unlisted (py ''0712345678'') (py ''Hello'')
         (py ''text'') world_empty))) = 1"
    "whatsapp_messages (snd (send_message env_unlisted (py ''0712345678'') (py ''Hello'')
         (py ''text'') world_empty)) = []"
    by (simp_all add: send_message_with_key [OF k refl] c w)
  have tm: "fst (send_template_message env_unlisted (py ''0712345678'') (py ''welcome'') None
         world_empty) = Inr unlisted"
    "length (calls (snd (send_template_message env_unlisted (py ''0712345678'')
         (py ''welcome'') None world_empty))) = 1"
    "whatsapp_messages (snd (send_template_message env_unlisted (py ''0712345678'')
         (py ''welcome'') None world_empty)) = []"
    by (simp_all add: send_template_message_eq [OF refl] c w)
  have md: "fst (send_media_message env_unlisted (py ''0712345678'')
         (py ''https://x.test/a.png'') (py ''image'') None world_empty) = Inr unlisted"
    "length (calls (snd (send_media_message env_unlisted (py ''0712345678'')
         (py ''https://x.test/a.png'') (py ''image'') None world_empty))) = 1"
    "whatsapp_messages (snd (send_media_message env_unlisted (py ''0712345678'')
         (py ''https://x.test/a.png'') (py ''image'') None world_empty)) = []"
    by (simp_all add: send_media_message_eq [OF refl] c w)
  have 1: "send_whatsapp_text env_unlisted text_hello world_empty =
      (Inl (HTTPException 500 (PStr (str env_unlisted IndexError))),
       snd (send_message env_unlisted (py ''0712345678'') (py ''Hello'') (py ''text'')
         world_empty))"
    unfolding send_whatsapp_text_outcome r using m(1)
    by (auto simp: t [simplified] x split: prod.splits sum.splits)
  have 2: "send_whatsapp_template env_unlisted template_welcome world_empty =
      (Inl (HTTPException 500 (PStr (str env_unlisted IndexError))),
       snd (send_template_message env_unlisted (py ''0712345678'') (py ''welcome'') None
         world_empty))"
    unfolding send_whatsapp_template_outcome r using tm(1)
    by (auto simp: t [simplified] x split: prod.splits sum.splits)
  have 3: "send_whatsapp_media env_unlisted media_photo world_empty =
      (Inl (HTTPException 500 (PStr (str env_unlisted IndexError))),
       snd (send_media_message env_unlisted (py ''0712345678'') (py ''https://x.test/a.png'')
         (py ''image'') None world_empty))"
    unfolding send_whatsapp_media_outcome r using md(1)
    by (auto simp: t [simplified] x split: prod.splits sum.splits)
  from t m tm md show ?thesis
    unfolding 1 2 3 by simp
qed

section \<open>The waiting list\<close>

text \<open>
  With the phone number already in the table, the \<open>HTTPException(400)\<close> raised inside
  the \<open>try\<close> block is caught by the \<open>except Exception\<close> clause of the same block and
  raised again with status 422; nothing was inserted or sent before.
\<close>

lemma create_waiting_list_item_duplicate:
  assumes "WaitingListCreate.phone_number item \<in> wl_phone_number ` set (waiting_list w)"
  shows "create_waiting_list_item E item w =
     (Inl (HTTPException 422
        (PStr (str E (HTTPException 400 (PStr (py ''Phone number already in waiting list'')))))),
      w)"
proof -
  from assms have
    "find (\<lambda>r. wl_phone_number r = WaitingListCreate.phone_number item) (waiting_list w) \<noteq> None"
    by (auto simp: find_None_iff)
  then show ?thesis
    by (simp add: create_waiting_list_item_def query_waiting_list_first_def io_defs)
qed

text \<open>
  Claim C6: when waiting-list creation is requested with a phone number that is already in
  the waiting list, the handler answers with a client error (a status between 400 and
  499), and the world is unchanged: no row was inserted and no call was recorded, in any
  environment (with a key configured, an invocation of \<open>send_message\<close> always
  records one, \<open>send_message_ex\<close>).
\<close>

theorem duplicate_phone_rejected:
  "WaitingListCreate.phone_number item \<in> wl_phone_number ` set (waiting_list w) \<Longrightarrow>
   (\<exists>status detail.
      fst (create_waiting_list_item E item w) = Inl (HTTPException status detail) \<and>
      400 \<le> status \<and> status < 500) \<and>
   snd (create_waiting_list_item E item w) = w"
  by (simp add: create_waiting_list_item_duplicate)

text \<open>
  Witness for C6: the table holds the number \<open>0712345678\<close> and the request brings it
  again.
\<close>

theorem duplicate_phone_rejected_witness:
  "WaitingListCreate.phone_number item_amina \<in> wl_phone_number ` set (waiting_list world_amina) \<and>
   (\<exists>status detail.
      fst (create_waiting_list_item env_accepting item_amina world_amina) =
        Inl (HTTPException status detail) \<and> 400 \<le> status \<and> status < 500) \<and>
   snd (create_waiting_list_item env_accepting item_amina world_amina) = world_amina"
proof -
  have h: "WaitingListCreate.phone_number item_amina \<in>
      wl_phone_number ` set (waiting_list world_amina)"
    by (simp add: item_amina_def world_amina_def)
  from h duplicate_phone_rejected [OF h, of env_accepting] show ?thesis
    by blast
qed

text \<open>
  Claim C9: the error that reaches the client for a duplicate phone number has status
  422, not 400, and its detail is the string form of the \<open>HTTPException(400)\<close> that was
  raised first.
\<close>

theorem duplicate_phone_status_422:
  "WaitingListCreate.phone_number item \<in> wl_phone_number ` set (waiting_list w) \<Longrightarrow>
   fst (create_waiting_list_item E item w) =
     Inl (HTTPException 422
       (PStr (str E (HTTPException 400 (PStr (py ''Phone number already in waiting list''))))))"
  by (simp add: create_waiting_list_item_duplicate)

text \<open>
  Witness for C9: the same duplicate request, with the \<open>str\<close> of Starlette's
  \<open>HTTPException\<close>, which puts the status before the detail.
\<close>

theorem duplicate_phone_status_422_witness:
  "WaitingListCreate.phone_number item_amina \<in> wl_phone_number ` set (waiting_list world_amina) \<and>
   fst (create_waiting_list_item env_accepting item_amina world_amina) =
     Inl (HTTPException 422 (PStr (py ''400: Phone number already in waiting list'')))"
proof -
  have h: "WaitingListCreate.phone_number item_amina \<in>
      wl_phone_number ` set (waiting_list world_amina)"
    by (simp add: item_amina_def world_amina_def)
  from h duplicate_phone_status_422 [OF h, of env_accepting] show ?thesis
    by (simp add: env_accepting_def exn_text_def)
qed

section \<open>Complete runs\<close>

text \<open>
  The text handler against a gateway that accepts: the destination of the payload is the
  normalized number, the record keeps the number as the request gave it, and the external
  id is the one of the envelope. The template and the media handler store their record in
  the same way. The waiting list on a new number: the row is inserted, then the welcome
  message is sent.
\<close>

lemma normalize_phone_0712345678: "normalize_phone (py ''0712345678'') = py ''+254712345678''"
  by (simp add: normalize_phone_def strip_def isspace_def isdigit_latin1 startswith_def)

lemma send_whatsapp_text_run:
  "send_whatsapp_text env_accepting text_hello world_empty =
     (Inr accepted,
      \<lparr>calls =
         [\<lparr>rq_url = py ''https://ngumzo.com/v1/send-message'', rq_method = py ''POST'',
           rq_headers = [(py ''Content-Type'', py ''application/json'')],
           rq_json = PDict
             [(py ''api_key'', PStr (py ''secret'')),
              (py ''sender_id'', PStr (py ''aisha'')),
              (py ''to'', PStr (py ''+254712345678'')),
              (py ''message'', PStr (py ''Hello'')),
              (py ''message_type'', PStr (py ''text''))],
           rq_timeout = Some 30\<rparr>],
       waiting_list = [],
       whatsapp_messages =
         [\<lparr>wm_id = 1, wm_phone_number = py ''0712345678'', wm_message_content = py ''Hello'',
           wm_message_type = py ''text'', wm_status = py ''sent'',
           wm_external_message_id = PStr (py ''wamid.1''), wm_error_message = None\<rparr>]\<rparr>)"
  unfolding send_whatsapp_text_def
  by (simp add: send_message_with_key [OF _ refl] io_defs env_accepting_def text_hello_def
      world_empty_def external_message_id_of_def dict_get_def accepted_def
      add_whatsapp_message_def fresh_id_def normalize_phone_0712345678 [simplified] Let_def)

lemma send_whatsapp_template_run:
  "fst (send_whatsapp_template env_accepting template_welcome world_empty) = Inr accepted \<and>
   whatsapp_messages (snd (send_whatsapp_template env_accepting template_welcome world_empty)) =
     [\<lparr>wm_id = 1, wm_phone_number = py ''0712345678'',
       wm_message_content = py ''Template: welcome'', wm_message_type = py ''template'',
       wm_status = py ''sent'', wm_external_message_id = PStr (py ''wamid.1''),
       wm_error_message = None\<rparr>]"
  unfolding send_whatsapp_template_outcome
  by (simp add: send_template_message_eq [OF refl] env_accepting_def template_welcome_def
      world_empty_def external_message_id_of_def dict_get_def accepted_def fresh_id_def)

lemma send_whatsapp_media_run:
  "fst (send_whatsapp_media env_accepting media_photo world_empty) = Inr accepted \<and>
   whatsapp_messages (snd (send_whatsapp_media env_accepting media_photo world_empty)) =
     [\<lparr>wm_id = 1, wm_phone_number = py ''0712345678'',
       wm_message_content = py ''https://x.test/a.png'', wm_message_type = py ''image'',
       wm_status = py ''sent'', wm_external_message_id = PStr (py ''wamid.1''),
       wm_error_message = None\<rparr>]"
  unfolding send_whatsapp_media_outcome
  by (simp add: send_media_message_eq [OF refl] env_accepting_def media_photo_def
      world_empty_def external_message_id_of_def dict_get_def accepted_def fresh_id_def)

lemma create_waiting_list_item_run:
  "fst (create_waiting_list_item env_accepting item_amina world_empty) =
     Inr [(py ''message'', PStr (py ''Added to waiting list'')), (py ''id'', PInt 1),
          (py ''whatsapp_sent'', PBool True)] \<and>
   waiting_list (snd (create_waiting_list_item env_accepting item_amina world_empty)) =
     [\<lparr>wl_id = 1, wl_username = py ''Amina Two'', wl_phone_number = py ''0712345678''\<rparr>] \<and>
   map rq_url (calls (snd (create_waiting_list_item env_accepting item_amina world_empty))) =
     [py ''https://ngumzo.com/v1/send-message'']"
  unfolding create_waiting_list_item_def
  by (simp add: send_message_with_key [OF _ refl] io_defs env_accepting_def item_amina_def
      world_empty_def dict_get_def accepted_def query_waiting_list_first_def
      add_waiting_list_def fresh_id_def Let_def)

end
